theory Spec2Isabelle
  imports Complex_Main "HOL-Library.Sublist" "HOL-Library.Multiset"
begin

section \<open>Python values and exceptions\<close>

text \<open>
  The payloads of the GitHub API are parsed JSON: in Python, \<^verbatim>\<open>None\<close>, booleans, integers,
  strings, lists and dicts. A dict is kept as an association list in insertion order, read with
  \<open>map_of\<close> (the first binding of a key is the dict's entry). Non-integer numbers are left out:
  no field this program reads carries one. Strings are lists of characters.
\<close>

datatype json =
    JNull
  | JBool bool
  | JInt int
  | JStr string
  | JArr "json list"
  | JObj "(string \<times> json) list"

text \<open>The exceptions the modelled code can raise, by Python class.\<close>

datatype error =
    AttributeError
  | TypeError
  | KeyError
  | ValueError
  | OverflowError
  | JSONDecodeError
  | ConnectionError
  | HTTPError int
  | OSError

definition bind_err :: "error + 'a \<Rightarrow> ('a \<Rightarrow> error + 'b) \<Rightarrow> error + 'b" where
  "bind_err m f = (case m of Inl e \<Rightarrow> Inl e | Inr a \<Rightarrow> f a)"

text \<open>\<^verbatim>\<open>bool(x)\<close>: what \<^verbatim>\<open>if x\<close> and \<^verbatim>\<open>not x\<close> test.\<close>

fun py_truthy :: "json \<Rightarrow> bool" where
  "py_truthy JNull = False"
| "py_truthy (JBool b) = b"
| "py_truthy (JInt i) = (i \<noteq> 0)"
| "py_truthy (JStr s) = (s \<noteq> [])"
| "py_truthy (JArr xs) = (xs \<noteq> [])"
| "py_truthy (JObj kvs) = (kvs \<noteq> [])"

text \<open>\<^verbatim>\<open>x.get(k, d)\<close>: only a dict has the method.\<close>

fun py_get :: "json \<Rightarrow> string \<Rightarrow> json \<Rightarrow> error + json" where
  "py_get (JObj kvs) k d = Inr (case map_of kvs k of None \<Rightarrow> d | Some v \<Rightarrow> v)"
| "py_get _ k d = Inl AttributeError"

text \<open>\<^verbatim>\<open>x[k]\<close> with a string \<open>k\<close>.\<close>

fun py_subscript :: "json \<Rightarrow> string \<Rightarrow> error + json" where
  "py_subscript (JObj kvs) k = (case map_of kvs k of None \<Rightarrow> Inl KeyError | Some v \<Rightarrow> Inr v)"
| "py_subscript _ k = Inl TypeError"

text \<open>
  \<^verbatim>\<open>k in x\<close> with a string \<open>k\<close>: a key of a dict, an element of a list, a substring of a
  string; the other values are not containers.
\<close>

fun py_in :: "string \<Rightarrow> json \<Rightarrow> error + bool" where
  "py_in k (JObj kvs) = Inr (k \<in> fst ` set kvs)"
| "py_in k (JArr xs) = Inr (JStr k \<in> set xs)"
| "py_in k (JStr s) = Inr (sublist k s)"
| "py_in k _ = Inl TypeError"

text \<open>The keys of a dict in insertion order, each once.\<close>

fun dict_keys :: "(string \<times> json) list \<Rightarrow> string list" where
  "dict_keys [] = []"
| "dict_keys ((k, v) # kvs) = k # filter (\<lambda>k'. k' \<noteq> k) (dict_keys kvs)"

text \<open>Iterating a value (\<^verbatim>\<open>for y in x\<close>, \<^verbatim>\<open>list.extend(x)\<close>).\<close>

fun py_iter :: "json \<Rightarrow> error + json list" where
  "py_iter (JArr xs) = Inr xs"
| "py_iter (JObj kvs) = Inr (map JStr (dict_keys kvs))"
| "py_iter (JStr s) = Inr (map (\<lambda>c. JStr [c]) s)"
| "py_iter _ = Inl TypeError"

text \<open>A list comprehension \<^verbatim>\<open>[f(x) for x in xs]\<close> stops at the first exception.\<close>

fun map_err :: "('a \<Rightarrow> error + 'b) \<Rightarrow> 'a list \<Rightarrow> error + 'b list" where
  "map_err f [] = Inr []"
| "map_err f (x # xs) =
     (case f x of Inl e \<Rightarrow> Inl e
      | Inr y \<Rightarrow> (case map_err f xs of Inl e \<Rightarrow> Inl e | Inr ys \<Rightarrow> Inr (y # ys)))"

text \<open>A filtering comprehension \<^verbatim>\<open>[x for x in xs if p(x)]\<close>.\<close>

fun filter_err :: "('a \<Rightarrow> error + bool) \<Rightarrow> 'a list \<Rightarrow> error + 'a list" where
  "filter_err p [] = Inr []"
| "filter_err p (x # xs) =
     (case p x of Inl e \<Rightarrow> Inl e
      | Inr b \<Rightarrow> (case filter_err p xs of Inl e \<Rightarrow> Inl e
                  | Inr ys \<Rightarrow> Inr (if b then x # ys else ys)))"

section \<open>Classification of the issues endpoint's items\<close>

text \<open>
  \<^verbatim>\<open>process_repo_data\<close>, lines 141-142:
  \<^verbatim>\<open>
  pull_requests = [pr for pr in issues if 'pull_request' in pr]
  issues = [issue for issue in issues if 'pull_request' not in issue]
  \<close>
  The result is the pair (pull requests, issues).
\<close>

definition classify :: "json list \<Rightarrow> error + (json list \<times> json list)" where
  "classify raw =
     bind_err (filter_err (\<lambda>pr. py_in ''pull_request'' pr) raw) (\<lambda>pull_requests.
     bind_err (filter_err (\<lambda>issue. bind_err (py_in ''pull_request'' issue) (\<lambda>b. Inr (\<not> b))) raw)
       (\<lambda>issues. Inr (pull_requests, issues)))"

section \<open>Normalization\<close>

text \<open>\<^verbatim>\<open>s.split('\n')[0]\<close>; a value that is not a string has no \<^verbatim>\<open>split\<close>.\<close>

fun first_line :: "json \<Rightarrow> error + json" where
  "first_line (JStr s) = Inr (JStr (takeWhile (\<lambda>c. c \<noteq> CHR 0x0A) s))"
| "first_line _ = Inl AttributeError"

text \<open>The body of the loop over commits (lines 148-157); the dict literal is evaluated in order.\<close>

definition commit_record :: "json \<Rightarrow> error + json" where
  "commit_record commit =
     bind_err (py_get commit ''author'' (JObj [])) (\<lambda>author.
     bind_err (py_get commit ''commit'' (JObj [])) (\<lambda>commit_info.
     bind_err (py_get commit ''sha'' (JStr '''')) (\<lambda>sha.
     bind_err (if py_truthy author then py_get author ''login'' (JStr ''Unknown'')
               else bind_err (py_get commit_info ''author'' (JObj []))
                      (\<lambda>a. py_get a ''name'' (JStr ''Unknown''))) (\<lambda>author_field.
     bind_err (bind_err (py_get commit_info ''author'' (JObj []))
                 (\<lambda>a. py_get a ''date'' (JStr ''''))) (\<lambda>date.
     bind_err (bind_err (py_get commit_info ''message'' (JStr '''')) first_line) (\<lambda>message.
     bind_err (py_get commit ''html_url'' (JStr '''')) (\<lambda>url.
     Inr (JObj [(''sha'', sha), (''author'', author_field), (''date'', date),
                (''message'', message), (''url'', url)]))))))))"

text \<open>\<^verbatim>\<open>[label.get('name', '') for label in x.get('labels', [])]\<close>\<close>

definition label_names :: "json \<Rightarrow> error + json" where
  "label_names x =
     bind_err (py_get x ''labels'' (JArr [])) (\<lambda>labels.
     bind_err (py_iter labels) (\<lambda>ls.
     bind_err (map_err (\<lambda>label. py_get label ''name'' (JStr '''')) ls) (\<lambda>names.
     Inr (JArr names))))"

text \<open>
  The body of the loop over issues (lines 162-171). The loop over pull requests (lines 176-185)
  has the same body, so \<open>issue_record\<close> stands for both.
\<close>

definition issue_record :: "json \<Rightarrow> error + json" where
  "issue_record issue =
     bind_err (py_get issue ''number'' (JStr '''')) (\<lambda>number.
     bind_err (py_get issue ''title'' (JStr '''')) (\<lambda>title.
     bind_err (py_get issue ''state'' (JStr '''')) (\<lambda>state.
     bind_err (py_get issue ''created_at'' (JStr '''')) (\<lambda>created_at.
     bind_err (py_get issue ''updated_at'' (JStr '''')) (\<lambda>updated_at.
     bind_err (bind_err (py_get issue ''user'' (JObj []))
                 (\<lambda>u. py_get u ''login'' (JStr ''Unknown''))) (\<lambda>author.
     bind_err (label_names issue) (\<lambda>labels.
     bind_err (py_get issue ''html_url'' (JStr '''')) (\<lambda>url.
     Inr (JObj [(''number'', number), (''title'', title), (''state'', state),
                (''created_at'', created_at), (''updated_at'', updated_at),
                (''author'', author), (''labels'', labels), (''url'', url)])))))))))"

text \<open>The body of the loop over releases (lines 190-196).\<close>

definition release_record :: "json \<Rightarrow> error + json" where
  "release_record release =
     bind_err (py_get release ''tag_name'' (JStr '''')) (\<lambda>tag_name.
     bind_err (py_get release ''name'' (JStr '''')) (\<lambda>name.
     bind_err (py_get release ''published_at'' (JStr '''')) (\<lambda>published_at.
     bind_err (bind_err (py_get release ''author'' (JObj []))
                 (\<lambda>a. py_get a ''login'' (JStr ''Unknown''))) (\<lambda>author.
     bind_err (py_get release ''html_url'' (JStr '''')) (\<lambda>url.
     Inr (JObj [(''tag_name'', tag_name), (''name'', name), (''published_at'', published_at),
                (''author'', author), (''url'', url)]))))))"

section \<open>The world outside the program\<close>

text \<open>
  A request is the URL and the \<^verbatim>\<open>params\<close> dict of \<^verbatim>\<open>requests.get\<close>; the keys the
  program sets are \<^verbatim>\<open>since\<close>, \<^verbatim>\<open>state\<close> and \<^verbatim>\<open>page\<close>.
\<close>

record request =
  rq_url :: string
  rq_since :: "string option"
  rq_state :: "string option"
  rq_page :: "nat option"

text \<open>
  A header value that \<^verbatim>\<open>int()\<close> reads as a number, or one on which it raises
  \<^verbatim>\<open>ValueError\<close>.
\<close>

datatype header = HInt int | HBad

text \<open>
  What the program reads of a response: the status, the headers
  \<^verbatim>\<open>X-RateLimit-Remaining\<close> and \<^verbatim>\<open>X-RateLimit-Reset\<close>, and
  \<^verbatim>\<open>response.json()\<close> (\<open>None\<close> when the body is not JSON).
\<close>

record response =
  status_code :: int
  hdr_remaining :: "header option"
  hdr_reset :: "header option"
  json_body :: "json option"

text \<open>The logging calls, one constructor per call site, with the values they format.\<close>

datatype log_msg =
    RateLimitLow
  | RateLimitExceeded real
  | RequestError int
  | Fetching string int
  | ProcessingError string error
  | Collecting string
  | CollectingError string error
  | Saved string string

datatype event = Sleep real | Sent request | Log log_msg

text \<open>
  The environment answers what the program asks of the outside: \<open>respond k rq\<close> is the
  outcome of the \<open>k\<close>-th call of \<^verbatim>\<open>requests.get\<close> (counting from 0) when it sends
  \<open>rq\<close>, a response or a transport exception; \<open>time_time k\<close> and \<open>datetime_now k\<close> are
  what \<^verbatim>\<open>time.time()\<close> (seconds) and \<^verbatim>\<open>datetime.now()\<close> (microseconds since
  0001-01-01T00:00:00) return at the \<open>k\<close>-th reading of a clock. \<open>isoformat\<close>, \<open>strftime\<close>
  and \<open>strptime\<close> are the library's formatting and parsing with the formats the program uses,
  \<open>strptime\<close> answering \<open>None\<close> where the library raises \<^verbatim>\<open>ValueError\<close>. \<open>makedirs_ok\<close>
  and \<open>write_ok\<close> say whether creating the data directory and writing a file succeed.
  Python's floats are read as reals.
\<close>

record env =
  respond :: "nat \<Rightarrow> request \<Rightarrow> error + response"
  time_time :: "nat \<Rightarrow> real"
  datetime_now :: "nat \<Rightarrow> int"
  isoformat :: "int \<Rightarrow> string"
  strftime :: "int \<Rightarrow> string"
  strptime :: "string \<Rightarrow> int option"
  makedirs_ok :: bool
  write_ok :: "string \<Rightarrow> json \<Rightarrow> bool"

text \<open>
  The state: the client's \<^verbatim>\<open>rate_limit_remaining\<close>, how many requests were sent and how
  many clock readings were taken, the files written, and the trace of sleeps, requests and
  log lines in the order they happened.
\<close>

record world =
  rate_limit_remaining :: int
  sent :: nat
  clock_reads :: nat
  files :: "(string \<times> json) list"
  trace :: "event list"

type_synonym 'a outcome = "((error + 'a) \<times> world) option"

section \<open>The rate-limited request\<close>

text \<open>\<^verbatim>\<open>int(response.headers.get(name, default))\<close>\<close>

definition header_int :: "header option \<Rightarrow> int \<Rightarrow> error + int" where
  "header_int h d = (case h of None \<Rightarrow> Inr d | Some (HInt n) \<Rightarrow> Inr n | Some HBad \<Rightarrow> Inl ValueError)"

text \<open>\<^verbatim>\<open>str.lower\<close> on ASCII letters.\<close>

definition lower_char :: "char \<Rightarrow> char" where
  "lower_char c =
     (let n = (of_char c :: nat) in if 65 \<le> n \<and> n \<le> 90 then char_of (n + 32) else c)"

text \<open>\<^verbatim>\<open>'rate limit' in response.json().get('message', '').lower()\<close>\<close>

definition is_rate_limit :: "response \<Rightarrow> error + bool" where
  "is_rate_limit r =
     (case json_body r of
        None \<Rightarrow> Inl JSONDecodeError
      | Some j \<Rightarrow>
          bind_err (py_get j ''message'' (JStr '''')) (\<lambda>m.
            case m of
              JStr s \<Rightarrow> Inr (sublist ''rate limit'' (map lower_char s))
            | _ \<Rightarrow> Inl AttributeError))"

text \<open>
  \<^verbatim>\<open>response.raise_for_status()\<close> raises for a status from 400 to 599; for any other
  status it returns, and \<^verbatim>\<open>_make_request\<close> falls off its end and returns \<^verbatim>\<open>None\<close>.
\<close>

definition raise_for_status :: "response \<Rightarrow> error + json" where
  "raise_for_status r =
     (if 400 \<le> status_code r \<and> status_code r < 600 then Inl (HTTPError (status_code r))
      else Inr JNull)"

definition add_events :: "event list \<Rightarrow> world \<Rightarrow> world" where
  "add_events es w = w\<lparr>trace := trace w @ es\<rparr>"

text \<open>
  Lines 36-38: the sleep before the retry, \<^verbatim>\<open>max(reset_time - time.time(), 0) + 10\<close>
  seconds, logged and slept.
\<close>

definition sleep_time :: "env \<Rightarrow> int \<Rightarrow> world \<Rightarrow> real" where
  "sleep_time E reset_time w = max (real_of_int reset_time - time_time E (clock_reads w)) 0 + 10"

definition backoff :: "env \<Rightarrow> int \<Rightarrow> world \<Rightarrow> world" where
  "backoff E reset_time w =
     add_events [Log (RateLimitExceeded (sleep_time E reset_time w)), Sleep (sleep_time E reset_time w)]
       (w\<lparr>clock_reads := clock_reads w + 1\<rparr>)"

text \<open>
  \<^verbatim>\<open>_make_request\<close> (lines 21-42). The recursive call of line 39 is unconditional, so a call
  need not return: the result \<open>None\<close> is a call that never returns. (The interpreter's own
  limit on the depth of the stack is not part of the model.)
\<close>

partial_function (option) make_request :: "env \<Rightarrow> request \<Rightarrow> world \<Rightarrow> json outcome" where
  "make_request E rq w =
     (let w1 = (if rate_limit_remaining w < 10
                then add_events [Log RateLimitLow, Sleep 60] w else w);
          w2 = add_events [Sent rq] (w1\<lparr>sent := sent w1 + 1\<rparr>)
      in case respond E (sent w1) rq of
           Inl e \<Rightarrow> Some (Inl e, w2)
         | Inr r \<Rightarrow>
            (case header_int (hdr_remaining r) 5000 of
               Inl e \<Rightarrow> Some (Inl e, w2)
             | Inr remaining \<Rightarrow>
                (let w3 = w2\<lparr>rate_limit_remaining := remaining\<rparr>
                 in if status_code r = 200
                    then (case json_body r of
                            None \<Rightarrow> Some (Inl JSONDecodeError, w3)
                          | Some j \<Rightarrow> Some (Inr j, w3))
                    else
                      (case (if status_code r = 403 then is_rate_limit r else Inr False) of
                         Inl e \<Rightarrow> Some (Inl e, w3)
                       | Inr limited \<Rightarrow>
                          if limited
                          then (case header_int (hdr_reset r) 0 of
                                  Inl e \<Rightarrow> Some (Inl e, w3)
                                | Inr reset_time \<Rightarrow> make_request E rq (backoff E reset_time w3))
                          else Some (raise_for_status r,
                                     add_events [Log (RequestError (status_code r))] w3)))))"

section \<open>Paginated fetches\<close>

text \<open>
  \<^verbatim>\<open>(datetime.now() - timedelta(days=days))\<close>, in microseconds: \<^verbatim>\<open>timedelta\<close> takes at
  most 999999999 days either way, and a date lies between the years 1 and 9999.
\<close>

definition since_date :: "int \<Rightarrow> int \<Rightarrow> error + int" where
  "since_date now days =
     (if \<bar>days\<bar> > 999999999 then Inl OverflowError
      else let t = now - days * 86400000000
           in if 0 \<le> t \<and> t < 3652059 * 86400000000 then Inr t else Inl OverflowError)"

text \<open>
  The loop of \<^verbatim>\<open>get_commits\<close> (lines 53-64) and of \<^verbatim>\<open>get_issues\<close> (lines 77-88), which
  are the same statements on a list called \<^verbatim>\<open>commits\<close> in one and \<^verbatim>\<open>issues\<close> in the
  other. \<open>None\<close> is a loop that never ends.
\<close>

partial_function (option) page_loop ::
  "env \<Rightarrow> request \<Rightarrow> nat \<Rightarrow> json list \<Rightarrow> world \<Rightarrow> json list outcome" where
  "page_loop E params pg items w =
     (case make_request E (params\<lparr>rq_page := Some pg\<rparr>) w of
        None \<Rightarrow> None
      | Some (Inl e, w') \<Rightarrow> Some (Inl e, w')
      | Some (Inr data, w') \<Rightarrow>
          if \<not> py_truthy data then Some (Inr items, w')
          else (case py_iter data of
                  Inl e \<Rightarrow> Some (Inl e, w')
                | Inr new \<Rightarrow>
                    if length new < 30 then Some (Inr (items @ new), w')
                    else page_loop E params (pg + 1) (items @ new) w'))"

text \<open>The base URL and the clock.\<close>

definition base_url :: string where
  "base_url = ''https://api.github.com''"

definition read_now :: "env \<Rightarrow> world \<Rightarrow> int \<times> world" where
  "read_now E w = (datetime_now E (clock_reads w), w\<lparr>clock_reads := clock_reads w + 1\<rparr>)"

definition get_commits :: "env \<Rightarrow> string \<Rightarrow> int \<Rightarrow> world \<Rightarrow> json list outcome" where
  "get_commits E repo days w =
     (let (now, w1) = read_now E w
      in case since_date now days of
           Inl e \<Rightarrow> Some (Inl e, w1)
         | Inr t \<Rightarrow>
             page_loop E \<lparr>rq_url = base_url @ ''/repos/'' @ repo @ ''/commits'',
                          rq_since = Some (isoformat E t), rq_state = None, rq_page = None\<rparr>
               1 [] w1)"

definition get_issues :: "env \<Rightarrow> string \<Rightarrow> int \<Rightarrow> string \<Rightarrow> world \<Rightarrow> json list outcome" where
  "get_issues E repo days st w =
     (let (now, w1) = read_now E w
      in case since_date now days of
           Inl e \<Rightarrow> Some (Inl e, w1)
         | Inr t \<Rightarrow>
             page_loop E \<lparr>rq_url = base_url @ ''/repos/'' @ repo @ ''/issues'',
                          rq_since = Some (isoformat E t), rq_state = Some st, rq_page = None\<rparr>
               1 [] w1)"

text \<open>
  The filter of \<^verbatim>\<open>get_releases\<close> (line 117):
  \<^verbatim>\<open>datetime.strptime(release['published_at'], '%Y-%m-%dT%H:%M:%SZ') > since_date\<close>.
  \<^verbatim>\<open>strptime\<close> raises \<^verbatim>\<open>TypeError\<close> on an argument that is not a string.
\<close>

definition release_recent :: "env \<Rightarrow> int \<Rightarrow> json \<Rightarrow> error + bool" where
  "release_recent E since release =
     bind_err (py_subscript release ''published_at'') (\<lambda>p.
       case p of
         JStr s \<Rightarrow> (case strptime E s of None \<Rightarrow> Inl ValueError | Some t \<Rightarrow> Inr (t > since))
       | _ \<Rightarrow> Inl TypeError)"

text \<open>
  Lines 114-118 on one page: the cutoff is read from the clock, then the page is filtered.
  The result is the page's items and those that passed.
\<close>

definition recent_releases ::
  "env \<Rightarrow> int \<Rightarrow> json \<Rightarrow> world \<Rightarrow> (error + (json list \<times> json list)) \<times> world" where
  "recent_releases E days data w =
     (let (now, w1) = read_now E w
      in (bind_err (since_date now days) (\<lambda>since.
          bind_err (py_iter data) (\<lambda>rels.
          bind_err (filter_err (release_recent E since) rels) (\<lambda>recent.
          Inr (rels, recent)))), w1))"

text \<open>The loop of \<^verbatim>\<open>get_releases\<close> (lines 106-124).\<close>

partial_function (option) releases_loop ::
  "env \<Rightarrow> string \<Rightarrow> int \<Rightarrow> nat \<Rightarrow> json list \<Rightarrow> world \<Rightarrow> json list outcome" where
  "releases_loop E u days pg releases w =
     (case make_request E \<lparr>rq_url = u, rq_since = None, rq_state = None, rq_page = Some pg\<rparr> w of
        None \<Rightarrow> None
      | Some (Inl e, w') \<Rightarrow> Some (Inl e, w')
      | Some (Inr data, w') \<Rightarrow>
          if \<not> py_truthy data then Some (Inr releases, w')
          else (case recent_releases E days data w' of
                  (Inl e, w'') \<Rightarrow> Some (Inl e, w'')
                | (Inr (rels, recent), w'') \<Rightarrow>
                    if length rels < 30 \<or> length recent < length rels
                    then Some (Inr (releases @ recent), w'')
                    else releases_loop E u days (pg + 1) (releases @ recent) w''))"

definition get_releases :: "env \<Rightarrow> string \<Rightarrow> int \<Rightarrow> world \<Rightarrow> json list outcome" where
  "get_releases E repo days w =
     releases_loop E (base_url @ ''/repos/'' @ repo @ ''/releases'') days 1 [] w"

definition get_repository_info :: "env \<Rightarrow> string \<Rightarrow> world \<Rightarrow> json outcome" where
  "get_repository_info E repo w =
     make_request E \<lparr>rq_url = base_url @ ''/repos/'' @ repo,
                     rq_since = None, rq_state = None, rq_page = None\<rparr> w"

section \<open>One repository\<close>

text \<open>Sequencing: an exception or a call that never returns ends the block.\<close>

definition and_then :: "'a outcome \<Rightarrow> ('a \<Rightarrow> world \<Rightarrow> 'b outcome) \<Rightarrow> 'b outcome" where
  "and_then m f =
     (case m of None \<Rightarrow> None | Some (Inl e, w) \<Rightarrow> Some (Inl e, w) | Some (Inr a, w) \<Rightarrow> f a w)"

definition pure_step :: "error + 'a \<Rightarrow> world \<Rightarrow> 'a outcome" where
  "pure_step r w = Some (r, w)"

text \<open>\<^verbatim>\<open>str(n)\<close> of an integer, for \<^verbatim>\<open>f"{days} days"\<close>.\<close>

fun digits :: "nat \<Rightarrow> string" where
  "digits n = (if n < 10 then [char_of (48 + n)] else digits (n div 10) @ [char_of (48 + n mod 10)])"

declare digits.simps [simp del]

definition str_int :: "int \<Rightarrow> string" where
  "str_int i = (if i < 0 then CHR ''-'' # digits (nat (- i)) else digits (nat i))"

text \<open>The \<^verbatim>\<open>repo_info\<close> entry of the result (lines 200-207).\<close>

definition repo_info_record :: "json \<Rightarrow> error + json" where
  "repo_info_record repo_info =
     bind_err (py_get repo_info ''full_name'' (JStr '''')) (\<lambda>full_name.
     bind_err (py_get repo_info ''description'' (JStr '''')) (\<lambda>description.
     bind_err (py_get repo_info ''stargazers_count'' (JInt 0)) (\<lambda>stars.
     bind_err (py_get repo_info ''forks_count'' (JInt 0)) (\<lambda>forks.
     bind_err (py_get repo_info ''open_issues_count'' (JInt 0)) (\<lambda>open_issues.
     bind_err (py_get repo_info ''html_url'' (JStr '''')) (\<lambda>url.
     Inr (JObj [(''full_name'', full_name), (''description'', description), (''stars'', stars),
                (''forks'', forks), (''open_issues'', open_issues), (''url'', url)])))))))"

text \<open>The \<^verbatim>\<open>try\<close> block of \<^verbatim>\<open>process_repo_data\<close> (lines 138-214).\<close>

definition process_body :: "env \<Rightarrow> string \<Rightarrow> int \<Rightarrow> world \<Rightarrow> json outcome" where
  "process_body E repo days w0 =
     and_then (get_repository_info E repo w0) (\<lambda>repo_info w.
     and_then (get_commits E repo days w) (\<lambda>commits w.
     and_then (get_issues E repo days ''all'' w) (\<lambda>raw w.
     and_then (pure_step (classify raw) w) (\<lambda>(pull_requests, issues) w.
     and_then (get_releases E repo days w) (\<lambda>releases w.
     and_then (pure_step (map_err commit_record commits) w) (\<lambda>commit_data w.
     and_then (pure_step (map_err issue_record issues) w) (\<lambda>issue_data w.
     and_then (pure_step (map_err issue_record pull_requests) w) (\<lambda>pr_data w.
     and_then (pure_step (map_err release_record releases) w) (\<lambda>release_data w.
     and_then (pure_step (repo_info_record repo_info) w) (\<lambda>info w.
     (let (now, w') = read_now E w
      in Some (Inr (JObj [(''repo_name'', JStr repo), (''repo_info'', info),
                          (''commits'', JArr commit_data), (''issues'', JArr issue_data),
                          (''pull_requests'', JArr pr_data), (''releases'', JArr release_data),
                          (''time_period'', JStr (str_int days @ '' days'')),
                          (''collection_date'', JStr (isoformat E now))]), w'))))))))))))"

text \<open>
  \<^verbatim>\<open>process_repo_data\<close> (lines 133-217): the block, and the handler that logs the exception
  and raises it again.
\<close>

definition process_repo_data :: "env \<Rightarrow> string \<Rightarrow> int \<Rightarrow> world \<Rightarrow> json outcome" where
  "process_repo_data E repo days w =
     (case process_body E repo days (add_events [Log (Fetching repo days)] w) of
        None \<Rightarrow> None
      | Some (Inl e, w') \<Rightarrow> Some (Inl e, add_events [Log (ProcessingError repo e)] w')
      | Some (Inr snapshot, w') \<Rightarrow> Some (Inr snapshot, w'))"

section \<open>The batch\<close>




section \<open>Contributor statistics\<close>










section \<open>Notions of the statements and sample environments\<close>


text \<open>A 200 response with a body, and GitHub's answer to a client over its limit.\<close>

definition ok_response :: "json \<Rightarrow> response" where
  "ok_response j =
     \<lparr>status_code = 200, hdr_remaining = Some (HInt 4999), hdr_reset = None, json_body = Some j\<rparr>"


text \<open>
  An environment around a server: both clocks stand still (at 1000 seconds, and at a date in
  2022), the formatting functions answer fixed strings, \<open>strptime\<close> reads nothing, and the disk
  works.
\<close>

definition mock_env :: "(nat \<Rightarrow> request \<Rightarrow> error + response) \<Rightarrow> env" where
  "mock_env server =
     \<lparr>respond = server, time_time = (\<lambda>k. 1000), datetime_now = (\<lambda>k. 63800000000000000),
      isoformat = (\<lambda>t. ''2022-01-01T00:00:00''), strftime = (\<lambda>t. ''20220108_000000''),
      strptime = (\<lambda>s. None), makedirs_ok = True, write_ok = (\<lambda>path data. True)\<rparr>"

definition fresh_world :: world where
  "fresh_world = \<lparr>rate_limit_remaining = 5000, sent = 0, clock_reads = 0, files = [], trace = []\<rparr>"




text \<open>The requests of a trace, in the order they were sent.\<close>

fun requests_of :: "event list \<Rightarrow> request list" where
  "requests_of [] = []"
| "requests_of (Sent rq # es) = rq # requests_of es"
| "requests_of (e # es) = requests_of es"

text \<open>
  A paginated source: pages 1 to \<open>N\<close> hold 30 items each, page \<open>N + 1\<close> holds fewer, and the
  server answers every request for one of these pages, whenever it is sent, with 200, the page
  as its body and a remaining-calls header the client can read.
\<close>

definition serves_pages :: "env \<Rightarrow> request \<Rightarrow> (nat \<Rightarrow> json list) \<Rightarrow> nat \<Rightarrow> bool" where
  "serves_pages E params pages N =
     ((\<forall>p. 1 \<le> p \<and> p \<le> N \<longrightarrow> length (pages p) = 30)
    \<and> length (pages (N + 1)) < 30
    \<and> (\<forall>k p. 1 \<le> p \<and> p \<le> N + 1 \<longrightarrow>
          (\<exists>r. respond E k (params\<lparr>rq_page := Some p\<rparr>) = Inr r \<and> status_code r = 200
              \<and> json_body r = Some (JArr (pages p)) \<and> hdr_remaining r \<noteq> Some HBad)))"

text \<open>The parameters \<^verbatim>\<open>get_commits\<close> and \<^verbatim>\<open>get_issues\<close> send besides the page.\<close>

definition commits_params :: "env \<Rightarrow> string \<Rightarrow> int \<Rightarrow> request" where
  "commits_params E repo t =
     \<lparr>rq_url = base_url @ ''/repos/'' @ repo @ ''/commits'',
      rq_since = Some (isoformat E t), rq_state = None, rq_page = None\<rparr>"

definition issues_params :: "env \<Rightarrow> string \<Rightarrow> int \<Rightarrow> string \<Rightarrow> request" where
  "issues_params E repo t st =
     \<lparr>rq_url = base_url @ ''/repos/'' @ repo @ ''/issues'',
      rq_since = Some (isoformat E t), rq_state = Some st, rq_page = None\<rparr>"

text \<open>A source of two pages, 30 items and 2 items, and a server that serves it.\<close>

definition sample_pages :: "nat \<Rightarrow> json list" where
  "sample_pages p = (if p = 1 then replicate 30 (JObj [(''sha'', JStr ''a'')])
                     else [JObj [(''sha'', JStr ''b'')], JObj [(''sha'', JStr ''c'')]])"

definition page_server :: "(nat \<Rightarrow> json list) \<Rightarrow> nat \<Rightarrow> request \<Rightarrow> error + response" where
  "page_server pages k rq =
     (case rq_page rq of
        None \<Rightarrow> Inr (ok_response (JObj []))
      | Some p \<Rightarrow> Inr (ok_response (JArr (pages p))))"

text \<open>A draft release, which has no publication date, and a source whose pages hold it.\<close>

definition draft_release :: json where
  "draft_release = JObj [(''tag_name'', JStr ''v2.0''), (''draft'', JBool True),
                         (''published_at'', JNull)]"

definition draft_pages :: "nat \<Rightarrow> json list" where
  "draft_pages p = [draft_release]"




section \<open>Properties of the pure steps\<close>

subsection \<open>Comprehensions\<close>

lemma bind_err_Inr: "bind_err m f = Inr y \<longleftrightarrow> (\<exists>a. m = Inr a \<and> f a = Inr y)"
  by (cases m) (auto simp: bind_err_def)

lemma bind_err_Inl: "bind_err m f = Inl e \<longleftrightarrow> m = Inl e \<or> (\<exists>a. m = Inr a \<and> f a = Inl e)"
  by (cases m) (auto simp: bind_err_def)

lemma filter_err_Inr:
  "filter_err p xs = Inr ys \<Longrightarrow>
     (\<forall>x\<in>set xs. \<exists>b. p x = Inr b) \<and> ys = filter (\<lambda>x. p x = Inr True) xs"
  by (induction xs arbitrary: ys) (auto split: sum.splits if_splits)

lemma filter_err_defined:
  "\<forall>x\<in>set xs. \<exists>b. p x = Inr b \<Longrightarrow> \<exists>ys. filter_err p xs = Inr ys"
  by (induction xs) (auto split: sum.splits)

subsection \<open>Issues and pull requests\<close>

lemma classify_Inr:
  assumes "classify raw = Inr (prs, iss)"
  shows "prs = filter (\<lambda>x. py_in ''pull_request'' x = Inr True) raw"
    and "iss = filter (\<lambda>x. py_in ''pull_request'' x = Inr False) raw"
    and "\<forall>x\<in>set raw. \<exists>b. py_in ''pull_request'' x = Inr b"
proof -
  from assms obtain p i where
    p: "filter_err (\<lambda>pr. py_in ''pull_request'' pr) raw = Inr p" and
    i: "filter_err (\<lambda>issue. bind_err (py_in ''pull_request'' issue) (\<lambda>b. Inr (\<not> b))) raw = Inr i"
    and eq: "prs = p" "iss = i"
    by (auto simp: classify_def bind_err_Inr)
  from filter_err_Inr[OF p] show "prs = filter (\<lambda>x. py_in ''pull_request'' x = Inr True) raw"
    and "\<forall>x\<in>set raw. \<exists>b. py_in ''pull_request'' x = Inr b" using eq by auto
  have "(\<lambda>x. bind_err (py_in ''pull_request'' x) (\<lambda>b. Inr (\<not> b)) = Inr True)
        = (\<lambda>x. py_in ''pull_request'' x = Inr False)"
    by (auto simp: fun_eq_iff bind_err_Inr)
  with filter_err_Inr[OF i] show "iss = filter (\<lambda>x. py_in ''pull_request'' x = Inr False) raw"
    using eq by simp
qed

text \<open>
  Claim C2. Whenever the two comprehensions of lines 141-142 return, they split the raw items
  of the issues endpoint in two: every raw item is in exactly one of the pull requests and the
  issues, no item is in both, the two sizes add up to the raw count, and an item is a pull
  request exactly when \<^verbatim>\<open>'pull_request' in item\<close> holds. On a list of dicts they do return,
  and a dict is a pull request exactly when \<^verbatim>\<open>pull_request\<close> is one of its keys.
\<close>

theorem classify_partition:
  "(classify raw = Inr (pull_requests, issues) \<longrightarrow>
      mset raw = mset pull_requests + mset issues
    \<and> length pull_requests + length issues = length raw
    \<and> set pull_requests \<inter> set issues = {}
    \<and> (\<forall>x\<in>set raw. (x \<in> set pull_requests) = (py_in ''pull_request'' x = Inr True)
                   \<and> (x \<in> set issues) = (py_in ''pull_request'' x = Inr False)
                   \<and> (x \<in> set pull_requests) \<noteq> (x \<in> set issues)))
 \<and> ((\<forall>x\<in>set raw. \<exists>fields. x = JObj fields) \<longrightarrow>
      (\<exists>prs iss. classify raw = Inr (prs, iss)
         \<and> (\<forall>fields. JObj fields \<in> set raw \<longrightarrow>
               (JObj fields \<in> set prs) = (''pull_request'' \<in> fst ` set fields))))"
proof (intro conjI impI)
  assume c: "classify raw = Inr (pull_requests, issues)"
  note f = classify_Inr[OF c]
  have part: "mset raw = mset (filter (\<lambda>x. py_in ''pull_request'' x = Inr True) raw)
                 + mset (filter (\<lambda>x. py_in ''pull_request'' x = Inr False) raw)"
    using f(3) by (induction raw) auto
  show m: "mset raw = mset pull_requests + mset issues" using part f(1,2) by simp
  show "length pull_requests + length issues = length raw"
    using arg_cong[OF m, of size] by simp
  show "set pull_requests \<inter> set issues = {}" using f(1,2) by auto
  show "\<forall>x\<in>set raw. (x \<in> set pull_requests) = (py_in ''pull_request'' x = Inr True)
                   \<and> (x \<in> set issues) = (py_in ''pull_request'' x = Inr False)
                   \<and> (x \<in> set pull_requests) \<noteq> (x \<in> set issues)"
    using f by auto
next
  assume objs: "\<forall>x\<in>set raw. \<exists>fields. x = JObj fields"
  then have d: "\<forall>x\<in>set raw. \<exists>b. py_in ''pull_request'' x = Inr b" by auto
  then have d': "\<forall>x\<in>set raw. \<exists>b. bind_err (py_in ''pull_request'' x) (\<lambda>b. Inr (\<not> b)) = Inr b"
    by (auto simp: bind_err_def)
  from filter_err_defined[OF d] filter_err_defined[OF d']
  obtain prs iss where c: "classify raw = Inr (prs, iss)"
    by (auto simp: classify_def bind_err_def)
  from classify_Inr(1)[OF c]
  have "\<forall>fields. JObj fields \<in> set raw \<longrightarrow>
               (JObj fields \<in> set prs) = (''pull_request'' \<in> fst ` set fields)"
    by auto
  with c show "\<exists>prs iss. classify raw = Inr (prs, iss)
         \<and> (\<forall>fields. JObj fields \<in> set raw \<longrightarrow>
               (JObj fields \<in> set prs) = (''pull_request'' \<in> fst ` set fields))"
    by blast
qed

theorem classify_partition_witness:
  "classify [JObj [(''number'', JInt 1)], JObj [(''number'', JInt 2), (''pull_request'', JObj [])]]
     = Inr ([JObj [(''number'', JInt 2), (''pull_request'', JObj [])]], [JObj [(''number'', JInt 1)]])
   \<and> set [JObj [(''number'', JInt 1)], JObj [(''number'', JInt 2), (''pull_request'', JObj [])]]
        \<subseteq> range JObj
   \<and> length [JObj [(''number'', JInt 2), (''pull_request'', JObj [])]] + length [JObj [(''number'', JInt 1)]]
       = length [JObj [(''number'', JInt 1)], JObj [(''number'', JInt 2), (''pull_request'', JObj [])]]
   \<and> set [JObj [(''number'', JInt 2), (''pull_request'', JObj [])]] \<inter> set [JObj [(''number'', JInt 1)]] = {}"
  using classify_partition [of "[JObj [(''number'', JInt 1)], JObj [(''number'', JInt 2), (''pull_request'', JObj [])]]"
      "[JObj [(''number'', JInt 2), (''pull_request'', JObj [])]]" "[JObj [(''number'', JInt 1)]]"]
  by (simp add: classify_def bind_err_def)

subsection \<open>Commit records\<close>

lemma map_err_Inr:
  "map_err f xs = Inr ys \<Longrightarrow> length ys = length xs \<and> (\<forall>i<length xs. f (xs ! i) = Inr (ys ! i))"
proof (induction xs arbitrary: ys)
  case Nil
  then show ?case by simp
next
  case (Cons x xs)
  from Cons.prems obtain y ys' where fx: "f x = Inr y" and r: "map_err f xs = Inr ys'" and ys: "ys = y # ys'"
    by (auto split: sum.splits)
  from Cons.IH[OF r] fx ys show ?case by (auto simp: nth_Cons split: nat.splits)
qed

lemma py_get_Inr:
  "py_get x k d = Inr v \<Longrightarrow> \<exists>fs. x = JObj fs \<and> v = (case map_of fs k of None \<Rightarrow> d | Some v \<Rightarrow> v)"
  by (cases x) auto

text \<open>
  Claim C4, as the code has it. The choice between the login and the display name is made on
  the raw \<^verbatim>\<open>author\<close> object, not on its login: when that object is a non-empty dict the
  author field is its login, or "Unknown" if it has none; when the object is absent, null or
  empty the author field is the display name of the commit metadata's author, or "Unknown" if
  that has none.
\<close>

theorem commit_author_resolution:
  "commit_record (JObj kvs) = Inr r \<Longrightarrow>
     (\<forall>fs. map_of kvs ''author'' = Some (JObj fs) \<and> fs \<noteq> [] \<longrightarrow>
        py_get r ''author'' JNull
          = Inr (case map_of fs ''login'' of Some l \<Rightarrow> l | None \<Rightarrow> JStr ''Unknown''))
   \<and> (map_of kvs ''author'' = None \<or> (\<exists>a. map_of kvs ''author'' = Some a \<and> \<not> py_truthy a) \<longrightarrow>
        (\<exists>cs ms. py_get (JObj kvs) ''commit'' (JObj []) = Inr (JObj cs)
             \<and> py_get (JObj cs) ''author'' (JObj []) = Inr (JObj ms)
             \<and> py_get r ''author'' JNull
                 = Inr (case map_of ms ''name'' of Some n \<Rightarrow> n | None \<Rightarrow> JStr ''Unknown'')))"
proof -
  assume a: "commit_record (JObj kvs) = Inr r"
  define author where "author = (case map_of kvs ''author'' of None \<Rightarrow> JObj [] | Some v \<Rightarrow> v)"
  define commit_info where "commit_info = (case map_of kvs ''commit'' of None \<Rightarrow> JObj [] | Some v \<Rightarrow> v)"
  from a obtain sha af date message url where
    af: "(if py_truthy author then py_get author ''login'' (JStr ''Unknown'')
          else bind_err (py_get commit_info ''author'' (JObj []))
                 (\<lambda>a. py_get a ''name'' (JStr ''Unknown''))) = Inr af" and
    r: "r = JObj [(''sha'', sha), (''author'', af), (''date'', date),
                (''message'', message), (''url'', url)]"
    unfolding commit_record_def bind_err_Inr author_def commit_info_def by auto
  have ra: "py_get r ''author'' JNull = Inr af" using r by simp
  have 1: "\<forall>fs. map_of kvs ''author'' = Some (JObj fs) \<and> fs \<noteq> [] \<longrightarrow>
        py_get r ''author'' JNull
          = Inr (case map_of fs ''login'' of Some l \<Rightarrow> l | None \<Rightarrow> JStr ''Unknown'')"
    using af ra by (auto simp: author_def split: option.splits)
  have 2: "\<exists>cs ms. py_get (JObj kvs) ''commit'' (JObj []) = Inr (JObj cs)
             \<and> py_get (JObj cs) ''author'' (JObj []) = Inr (JObj ms)
             \<and> py_get r ''author'' JNull
                 = Inr (case map_of ms ''name'' of Some n \<Rightarrow> n | None \<Rightarrow> JStr ''Unknown'')"
    if f: "map_of kvs ''author'' = None \<or> (\<exists>a. map_of kvs ''author'' = Some a \<and> \<not> py_truthy a)"
  proof -
    from f have "\<not> py_truthy author" by (auto simp: author_def)
    with af obtain m where m: "py_get commit_info ''author'' (JObj []) = Inr m"
      and n: "py_get m ''name'' (JStr ''Unknown'') = Inr af"
      by (auto simp: bind_err_Inr)
    from py_get_Inr[OF m] obtain cs where cs: "commit_info = JObj cs" by auto
    from py_get_Inr[OF n] obtain ms where ms: "m = JObj ms"
      and afv: "af = (case map_of ms ''name'' of None \<Rightarrow> JStr ''Unknown'' | Some v \<Rightarrow> v)" by auto
    have "py_get (JObj kvs) ''commit'' (JObj []) = Inr (JObj cs)"
      using cs by (simp add: commit_info_def)
    moreover have "py_get (JObj cs) ''author'' (JObj []) = Inr (JObj ms)"
      using m cs ms by simp
    moreover have "py_get r ''author'' JNull
                 = Inr (case map_of ms ''name'' of Some n \<Rightarrow> n | None \<Rightarrow> JStr ''Unknown'')"
      using ra afv by (simp split: option.splits)
    ultimately show ?thesis by blast
  qed
  from 1 2 show ?thesis by blast
qed

theorem commit_author_resolution_witness:
  "commit_record (JObj [(''sha'', JStr ''abc''), (''author'', JObj [(''login'', JStr ''alice'')]),
                        (''commit'', JObj [(''author'', JObj [(''name'', JStr ''Alice A'')])])])
     = Inr (JObj [(''sha'', JStr ''abc''), (''author'', JStr ''alice''), (''date'', JStr ''''),
                  (''message'', JStr ''''), (''url'', JStr '''')])
   \<and> map_of [(''sha'', JStr ''abc''), (''author'', JObj [(''login'', JStr ''alice'')]),
              (''commit'', JObj [(''author'', JObj [(''name'', JStr ''Alice A'')])])] ''author''
       = Some (JObj [(''login'', JStr ''alice'')])
   \<and> py_get (JObj [(''sha'', JStr ''abc''), (''author'', JStr ''alice''), (''date'', JStr ''''),
                  (''message'', JStr ''''), (''url'', JStr '''')]) ''author'' JNull = Inr (JStr ''alice'')"
  using commit_author_resolution [of
      "[(''sha'', JStr ''abc''), (''author'', JObj [(''login'', JStr ''alice'')]),
        (''commit'', JObj [(''author'', JObj [(''name'', JStr ''Alice A'')])])]"
      "JObj [(''sha'', JStr ''abc''), (''author'', JStr ''alice''), (''date'', JStr ''''),
             (''message'', JStr ''''), (''url'', JStr '''')]"]
  by (simp add: commit_record_def bind_err_def)

text \<open>
  The claim as the specification words it fails on a commit whose \<^verbatim>\<open>author\<close> object has no
  login while the commit metadata has a display name: the author field is "Unknown", not "Bob".
\<close>

theorem commit_author_counterexample:
  "commit_record (JObj [(''sha'', JStr ''abc''), (''author'', JObj [(''id'', JInt 1)]),
                        (''commit'', JObj [(''author'', JObj [(''name'', JStr ''Bob'')]),
                                           (''message'', JStr ''fix'')])])
     = Inr (JObj [(''sha'', JStr ''abc''), (''author'', JStr ''Unknown''), (''date'', JStr ''''),
                  (''message'', JStr ''fix''), (''url'', JStr '''')])"
  by (simp add: commit_record_def bind_err_def)

subsection \<open>Issue and pull-request records\<close>

text \<open>
  Claim C7, as the code has it. The labels field is a list with one entry for each raw label,
  in the raw order: the label's name, or the empty string for a label that has none. Nothing
  is dropped and nothing is merged.
\<close>

theorem issue_labels_listed:
  "issue_record issue = Inr r \<Longrightarrow>
     \<exists>labels ls names.
        py_get issue ''labels'' (JArr []) = Inr labels \<and> py_iter labels = Inr ls
      \<and> py_get r ''labels'' JNull = Inr (JArr names) \<and> length names = length ls
      \<and> (\<forall>i<length ls. \<exists>fs. ls ! i = JObj fs
             \<and> names ! i = (case map_of fs ''name'' of Some n \<Rightarrow> n | None \<Rightarrow> JStr ''''))"
proof -
  assume a: "issue_record issue = Inr r"
  then obtain number title state created_at updated_at author labels url where
    l: "label_names issue = Inr labels" and
    r: "r = JObj [(''number'', number), (''title'', title), (''state'', state),
                (''created_at'', created_at), (''updated_at'', updated_at),
                (''author'', author), (''labels'', labels), (''url'', url)]"
    unfolding issue_record_def bind_err_Inr by auto
  from l obtain raw ls names where
    raw: "py_get issue ''labels'' (JArr []) = Inr raw" and ls: "py_iter raw = Inr ls" and
    names: "map_err (\<lambda>label. py_get label ''name'' (JStr '''')) ls = Inr names" and
    labels: "labels = JArr names"
    unfolding label_names_def bind_err_Inr by auto
  from map_err_Inr[OF names] have len: "length names = length ls"
    and nth: "\<forall>i<length ls. py_get (ls ! i) ''name'' (JStr '''') = Inr (names ! i)" by auto
  have "\<forall>i<length ls. \<exists>fs. ls ! i = JObj fs
             \<and> names ! i = (case map_of fs ''name'' of Some n \<Rightarrow> n | None \<Rightarrow> JStr '''')"
  proof (intro allI impI)
    fix i assume "i < length ls"
    with nth have "py_get (ls ! i) ''name'' (JStr '''') = Inr (names ! i)" by simp
    from py_get_Inr[OF this] show "\<exists>fs. ls ! i = JObj fs
             \<and> names ! i = (case map_of fs ''name'' of Some n \<Rightarrow> n | None \<Rightarrow> JStr '''')"
      by (auto split: option.splits)
  qed
  with raw ls len r labels show ?thesis by auto
qed

theorem issue_labels_listed_witness:
  "issue_record (JObj [(''number'', JInt 7), (''labels'', JArr [JObj [(''name'', JStr ''bug'')]])])
     = Inr (JObj [(''number'', JInt 7), (''title'', JStr ''''), (''state'', JStr ''''),
                  (''created_at'', JStr ''''), (''updated_at'', JStr ''''),
                  (''author'', JStr ''Unknown''),
                  (''labels'', JArr [JStr ''bug'']), (''url'', JStr '''')])
   \<and> (\<exists>labels ls.
        py_get (JObj [(''number'', JInt 7), (''labels'', JArr [JObj [(''name'', JStr ''bug'')]])])
            ''labels'' (JArr []) = Inr labels \<and> py_iter labels = Inr ls \<and> length ls = 1)"
  using issue_labels_listed [of
      "JObj [(''number'', JInt 7), (''labels'', JArr [JObj [(''name'', JStr ''bug'')]])]"
      "JObj [(''number'', JInt 7), (''title'', JStr ''''), (''state'', JStr ''''),
                  (''created_at'', JStr ''''), (''updated_at'', JStr ''''),
                  (''author'', JStr ''Unknown''),
                  (''labels'', JArr [JStr ''bug'']), (''url'', JStr '''')]"]
  by (simp add: issue_record_def label_names_def bind_err_def)

text \<open>
  The claim as the specification words it fails on an issue with a label without a name and
  the same label twice: the labels field holds the placeholder and the repeated name.
\<close>

theorem issue_labels_counterexample:
  "issue_record (JObj [(''number'', JInt 7),
                       (''labels'', JArr [JObj [(''id'', JInt 1)], JObj [(''name'', JStr ''bug'')],
                                          JObj [(''name'', JStr ''bug'')]])])
     = Inr (JObj [(''number'', JInt 7), (''title'', JStr ''''), (''state'', JStr ''''),
                  (''created_at'', JStr ''''), (''updated_at'', JStr ''''),
                  (''author'', JStr ''Unknown''),
                  (''labels'', JArr [JStr '''', JStr ''bug'', JStr ''bug'']), (''url'', JStr '''')])"
  by (simp add: issue_record_def label_names_def bind_err_def)

lemma issue_record_number:
  "issue_record (JObj kvs) = Inr r \<Longrightarrow>
     py_get r ''number'' JNull = Inr (case map_of kvs ''number'' of None \<Rightarrow> JStr '''' | Some v \<Rightarrow> v)"
  unfolding issue_record_def bind_err_Inr by auto

lemma label_names_cong:
  "map_of kvs ''labels'' = map_of kvs' ''labels'' \<Longrightarrow> label_names (JObj kvs) = label_names (JObj kvs')"
  by (simp add: label_names_def)

text \<open>
  Claim C8, as the code has it. An issue without a number is normalized like any other: its
  record carries the empty string as its number. If such an issue makes the normalization
  raise, the same issue with a number would raise the same exception, so the missing number is
  never the cause; and a list of issues that is normalized yields one record for each issue,
  the one without a number among them.
\<close>

theorem issue_without_number:
  "map_of kvs ''number'' = None \<Longrightarrow>
     (\<forall>r. issue_record (JObj kvs) = Inr r \<longrightarrow> py_get r ''number'' JNull = Inr (JStr ''''))
   \<and> (\<forall>e. issue_record (JObj kvs) = Inl e \<longrightarrow> issue_record (JObj ((''number'', n) # kvs)) = Inl e)
   \<and> (\<forall>issues data. JObj kvs \<in> set issues \<and> map_err issue_record issues = Inr data \<longrightarrow>
         length data = length issues
       \<and> (\<exists>r\<in>set data. py_get r ''number'' JNull = Inr (JStr '''')))"
proof -
  assume n: "map_of kvs ''number'' = None"
  have a: "py_get r ''number'' JNull = Inr (JStr '''')" if "issue_record (JObj kvs) = Inr r" for r
    using issue_record_number[OF that] n by simp
  have b: "issue_record (JObj ((''number'', n) # kvs)) = Inl e"
    if e: "issue_record (JObj kvs) = Inl e" for e
  proof -
    have l: "label_names (JObj ((''number'', n) # kvs)) = label_names (JObj kvs)"
      by (rule label_names_cong) simp
    from e show ?thesis
      unfolding issue_record_def l by (simp add: bind_err_def split: sum.splits)
  qed
  have c: "length data = length issues
       \<and> (\<exists>r\<in>set data. py_get r ''number'' JNull = Inr (JStr ''''))"
    if h: "JObj kvs \<in> set issues \<and> map_err issue_record issues = Inr data" for issues data
  proof -
    from map_err_Inr[of issue_record issues data] h
    have len: "length data = length issues"
      and nth: "\<forall>i<length issues. issue_record (issues ! i) = Inr (data ! i)" by auto
    from h obtain i where i: "i < length issues" "issues ! i = JObj kvs"
      by (auto simp: in_set_conv_nth)
    with nth have "issue_record (JObj kvs) = Inr (data ! i)" by auto
    from a[OF this] have "py_get (data ! i) ''number'' JNull = Inr (JStr '''')" .
    moreover have "data ! i \<in> set data" using i len by simp
    ultimately have "\<exists>r\<in>set data. py_get r ''number'' JNull = Inr (JStr '''')" by blast
    with len show ?thesis by simp
  qed
  from a b c show ?thesis by blast
qed

theorem issue_without_number_witness:
  "map_of [(''title'', JStr ''Crash on start'')] ''number'' = None
   \<and> issue_record (JObj [(''title'', JStr ''Crash on start'')])
       = Inr (JObj [(''number'', JStr ''''), (''title'', JStr ''Crash on start''),
                  (''state'', JStr ''''), (''created_at'', JStr ''''),
                  (''updated_at'', JStr ''''), (''author'', JStr ''Unknown''),
                  (''labels'', JArr []), (''url'', JStr '''')])
   \<and> py_get (JObj [(''number'', JStr ''''), (''title'', JStr ''Crash on start''),
                  (''state'', JStr ''''), (''created_at'', JStr ''''),
                  (''updated_at'', JStr ''''), (''author'', JStr ''Unknown''),
                  (''labels'', JArr []), (''url'', JStr '''')]) ''number'' JNull = Inr (JStr '''')"
  using issue_without_number [of "[(''title'', JStr ''Crash on start'')]" JNull]
  by (simp add: issue_record_def label_names_def bind_err_def)

text \<open>
  The claim as the specification words it fails on an issue without a number: no exception is
  raised, and the record carries the empty string as its number.
\<close>

theorem issue_without_number_counterexample:
  "issue_record (JObj [(''title'', JStr ''Crash on start''), (''state'', JStr ''open'')])
     = Inr (JObj [(''number'', JStr ''''), (''title'', JStr ''Crash on start''),
                  (''state'', JStr ''open''), (''created_at'', JStr ''''),
                  (''updated_at'', JStr ''''), (''author'', JStr ''Unknown''),
                  (''labels'', JArr []), (''url'', JStr '''')])"
  by (simp add: issue_record_def label_names_def bind_err_def)

section \<open>Properties of the contributor statistics\<close>













section \<open>Properties of the rate-limited request\<close>

declare make_request.simps [code]

lemma header_int_ok: "h \<noteq> Some HBad \<Longrightarrow> \<exists>n. header_int h d = Inr n"
  by (auto simp: header_int_def split: option.splits header.splits)

lemma sent_add_events [simp]: "sent (add_events es w) = sent w"
  by (simp add: add_events_def)

lemma sent_backoff [simp]: "sent (backoff E t w) = sent w"
  by (simp add: backoff_def)












section \<open>Properties of the paginated fetches\<close>

lemma requests_of_append: "requests_of (xs @ ys) = requests_of xs @ requests_of ys"
  by (induction xs rule: requests_of.induct) auto

lemma make_request_ok_full:
  assumes "respond E (sent w) rq = Inr r" "status_code r = 200" "json_body r = Some j"
    "hdr_remaining r \<noteq> Some HBad"
  shows "\<exists>w'. make_request E rq w = Some (Inr j, w') \<and> sent w' = sent w + 1
           \<and> requests_of (trace w') = requests_of (trace w) @ [rq]
           \<and> clock_reads w' = clock_reads w \<and> files w' = files w"
proof -
  from header_int_ok[OF assms(4)] obtain n where n: "header_int (hdr_remaining r) 5000 = Inr n"
    by blast
  show ?thesis
    by (subst make_request.simps)
       (simp add: Let_def assms n add_events_def requests_of_append)
qed

lemma page_loop_pages:
  assumes sp: "serves_pages E params pages N"
  shows "1 \<le> pg \<Longrightarrow> pg \<le> N + 1 \<Longrightarrow>
     \<exists>w'. page_loop E params pg items w
             = Some (Inr (items @ concat (map pages [pg..<N + 2])), w')
         \<and> sent w' = sent w + (N + 2 - pg)
         \<and> requests_of (trace w')
             = requests_of (trace w) @ map (\<lambda>p. params\<lparr>rq_page := Some p\<rparr>) [pg..<N + 2]"
proof (induction "N + 1 - pg" arbitrary: pg items w)
  case 0
  then have pg: "pg = N + 1" by simp
  from sp pg 0 obtain r where r: "respond E (sent w) (params\<lparr>rq_page := Some pg\<rparr>) = Inr r"
    "status_code r = 200" "json_body r = Some (JArr (pages pg))" "hdr_remaining r \<noteq> Some HBad"
    unfolding serves_pages_def by blast
  from make_request_ok_full[OF r] obtain w' where
    w': "make_request E (params\<lparr>rq_page := Some pg\<rparr>) w = Some (Inr (JArr (pages pg)), w')"
    "sent w' = sent w + 1"
    "requests_of (trace w') = requests_of (trace w) @ [params\<lparr>rq_page := Some pg\<rparr>]" by blast
  from sp pg have short: "length (pages pg) < 30" unfolding serves_pages_def by simp
  have upt: "[pg..<N + 2] = [pg]" using pg by (simp add: upt_rec)
  have "page_loop E params pg items w = Some (Inr (items @ pages pg), w')"
    by (subst page_loop.simps) (simp add: w' short)
  with w' show ?case unfolding upt using pg by simp
next
  case (Suc n)
  then have le: "pg \<le> N" by simp
  from sp le Suc.prems obtain r where r: "respond E (sent w) (params\<lparr>rq_page := Some pg\<rparr>) = Inr r"
    "status_code r = 200" "json_body r = Some (JArr (pages pg))" "hdr_remaining r \<noteq> Some HBad"
    unfolding serves_pages_def by blast
  from make_request_ok_full[OF r] obtain w1 where
    w1: "make_request E (params\<lparr>rq_page := Some pg\<rparr>) w = Some (Inr (JArr (pages pg)), w1)"
    "sent w1 = sent w + 1"
    "requests_of (trace w1) = requests_of (trace w) @ [params\<lparr>rq_page := Some pg\<rparr>]" by blast
  from sp le Suc.prems have full: "length (pages pg) = 30" unfolding serves_pages_def by simp
  then have ne: "pages pg \<noteq> []" by auto
  have step: "page_loop E params pg items w = page_loop E params (pg + 1) (items @ pages pg) w1"
    by (subst page_loop.simps) (simp add: w1 full ne)
  have "n = N + 1 - (pg + 1)" using Suc.hyps(2) by simp
  from Suc.hyps(1)[OF this, of "items @ pages pg" w1] le obtain w' where
    w': "page_loop E params (pg + 1) (items @ pages pg) w1
           = Some (Inr ((items @ pages pg) @ concat (map pages [pg + 1..<N + 2])), w')"
    "sent w' = sent w1 + (N + 2 - (pg + 1))"
    "requests_of (trace w')
       = requests_of (trace w1) @ map (\<lambda>p. params\<lparr>rq_page := Some p\<rparr>) [pg + 1..<N + 2]"
    by auto
  have upt: "[pg..<N + 2] = pg # [pg + 1..<N + 2]" using le by (simp add: upt_rec)
  from step w' w1 le show ?case unfolding upt by simp
qed

text \<open>
  Claim C1. Against a source whose pages 1 to \<open>N\<close> hold 30 items and whose page \<open>N + 1\<close>
  holds fewer, \<^verbatim>\<open>get_commits\<close> and \<^verbatim>\<open>get_issues\<close> return; they send \<open>N + 1\<close> requests, for
  the pages 1 to \<open>N + 1\<close> in this order, and return the items of these pages, concatenated in
  this order.
\<close>

theorem paginated_fetch_concatenates:
  "since_date (datetime_now E (clock_reads w)) days = Inr t \<Longrightarrow>
     (serves_pages E (commits_params E repo t) pages N \<longrightarrow>
        (\<exists>w'. get_commits E repo days w = Some (Inr (concat (map pages [1..<N + 2])), w')
            \<and> sent w' = sent w + N + 1
            \<and> requests_of (trace w')
                = requests_of (trace w)
                  @ map (\<lambda>p. commits_params E repo t\<lparr>rq_page := Some p\<rparr>) [1..<N + 2]))
   \<and> (serves_pages E (issues_params E repo t st) pages N \<longrightarrow>
        (\<exists>w'. get_issues E repo days st w = Some (Inr (concat (map pages [1..<N + 2])), w')
            \<and> sent w' = sent w + N + 1
            \<and> requests_of (trace w')
                = requests_of (trace w)
                  @ map (\<lambda>p. issues_params E repo t st\<lparr>rq_page := Some p\<rparr>) [1..<N + 2]))"
proof (intro conjI impI)
  assume t: "since_date (datetime_now E (clock_reads w)) days = Inr t"
  { assume sp: "serves_pages E (commits_params E repo t) pages N"
    from page_loop_pages[OF sp, of 1 "[]" "w\<lparr>clock_reads := clock_reads w + 1\<rparr>"]
    show "\<exists>w'. get_commits E repo days w = Some (Inr (concat (map pages [1..<N + 2])), w')
            \<and> sent w' = sent w + N + 1
            \<and> requests_of (trace w')
                = requests_of (trace w)
                  @ map (\<lambda>p. commits_params E repo t\<lparr>rq_page := Some p\<rparr>) [1..<N + 2]"
      by (simp add: get_commits_def read_now_def t commits_params_def) }
  { assume sp: "serves_pages E (issues_params E repo t st) pages N"
    from page_loop_pages[OF sp, of 1 "[]" "w\<lparr>clock_reads := clock_reads w + 1\<rparr>"]
    show "\<exists>w'. get_issues E repo days st w = Some (Inr (concat (map pages [1..<N + 2])), w')
            \<and> sent w' = sent w + N + 1
            \<and> requests_of (trace w')
                = requests_of (trace w)
                  @ map (\<lambda>p. issues_params E repo t st\<lparr>rq_page := Some p\<rparr>) [1..<N + 2]"
      by (simp add: get_issues_def read_now_def t issues_params_def) }
qed

theorem paginated_fetch_concatenates_witness:
  "since_date (datetime_now (mock_env (page_server sample_pages)) (clock_reads fresh_world)) 7
     = Inr 63799395200000000
   \<and> serves_pages (mock_env (page_server sample_pages))
        (commits_params (mock_env (page_server sample_pages)) ''o/r'' 63799395200000000)
        sample_pages 1
   \<and> (\<exists>w'. get_commits (mock_env (page_server sample_pages)) ''o/r'' 7 fresh_world
             = Some (Inr (replicate 30 (JObj [(''sha'', JStr ''a'')])
                          @ [JObj [(''sha'', JStr ''b'')], JObj [(''sha'', JStr ''c'')]]), w')
         \<and> sent w' = 2)"
proof -
  have a: "since_date (datetime_now (mock_env (page_server sample_pages)) (clock_reads fresh_world)) 7
     = Inr 63799395200000000"
    by (simp add: since_date_def mock_env_def)
  have b: "serves_pages (mock_env (page_server sample_pages))
        (commits_params (mock_env (page_server sample_pages)) ''o/r'' 63799395200000000)
        sample_pages 1"
    by (simp add: serves_pages_def mock_env_def page_server_def sample_pages_def ok_response_def
          commits_params_def)
  have c: "concat (map sample_pages [1..<1 + 2])
             = replicate 30 (JObj [(''sha'', JStr ''a'')])
               @ [JObj [(''sha'', JStr ''b'')], JObj [(''sha'', JStr ''c'')]]"
    by (simp add: upt_rec sample_pages_def)
  from paginated_fetch_concatenates
         [OF a, of "''o/r''" sample_pages 1 "''all''", THEN conjunct1, rule_format, OF b]
  have "\<exists>w'. get_commits (mock_env (page_server sample_pages)) ''o/r'' 7 fresh_world
             = Some (Inr (concat (map sample_pages [1..<1 + 2])), w')
         \<and> sent w' = 2"
    by (auto simp: fresh_world_def)
  with a b c show ?thesis by simp
qed

section \<open>Properties of the release fetch\<close>

lemma filter_err_fails:
  "\<exists>x\<in>set xs. \<exists>e. p x = Inl e \<Longrightarrow> \<exists>e. filter_err p xs = Inl e"
proof (cases "filter_err p xs")
  case (Inl e)
  then show ?thesis by blast
next
  case (Inr ys)
  assume "\<exists>x\<in>set xs. \<exists>e. p x = Inl e"
  with filter_err_Inr[OF Inr] show ?thesis by fastforce
qed

lemma release_recent_fails:
  "map_of fs ''published_at'' = None \<or> map_of fs ''published_at'' = Some JNull
     \<or> (\<exists>s. map_of fs ''published_at'' = Some (JStr s) \<and> strptime E s = None) \<Longrightarrow>
   \<exists>e. release_recent E since (JObj fs) = Inl e"
  by (auto simp: release_recent_def bind_err_def)

lemma recent_releases_fails:
  assumes "\<And>since. \<exists>x\<in>set rels. \<exists>e. release_recent E since x = Inl e"
  shows "\<exists>e w'. recent_releases E days (JArr rels) w = (Inl e, w')"
proof (cases "since_date (datetime_now E (clock_reads w)) days")
  case (Inl e)
  then show ?thesis by (simp add: recent_releases_def read_now_def bind_err_def)
next
  case (Inr since)
  from filter_err_fails[OF assms[of since]] obtain e where
    "filter_err (release_recent E since) rels = Inl e" by blast
  with Inr show ?thesis by (simp add: recent_releases_def read_now_def bind_err_def)
qed

text \<open>
  Claim C10. When the loop of \<^verbatim>\<open>get_releases\<close> receives a page with a release whose
  \<^verbatim>\<open>published_at\<close> is missing, null or a string that \<^verbatim>\<open>strptime\<close> rejects, at whatever page
  number and whatever it has collected so far, the loop ends with an exception; and an
  exception of \<^verbatim>\<open>get_releases\<close> is the outcome of \<^verbatim>\<open>process_repo_data\<close>, which logs it
  and returns no snapshot.
\<close>

theorem bad_release_aborts:
  "(make_request E \<lparr>rq_url = u, rq_since = None, rq_state = None, rq_page = Some pg\<rparr> w
       = Some (Inr (JArr rels), w1)
    \<and> (\<exists>fs. JObj fs \<in> set rels
          \<and> (map_of fs ''published_at'' = None \<or> map_of fs ''published_at'' = Some JNull
             \<or> (\<exists>s. map_of fs ''published_at'' = Some (JStr s) \<and> strptime E s = None)))
    \<longrightarrow> (\<exists>e w'. releases_loop E u days pg releases w = Some (Inl e, w')))
   \<and> (get_repository_info E repo (add_events [Log (Fetching repo days)] w0) = Some (Inr info, wa)
      \<and> get_commits E repo days wa = Some (Inr commits, wb)
      \<and> get_issues E repo days ''all'' wb = Some (Inr raw, wc)
      \<and> classify raw = Inr (pull_requests, issues)
      \<and> get_releases E repo days wc = Some (Inl err, wd)
    \<longrightarrow> process_repo_data E repo days w0
          = Some (Inl err, add_events [Log (ProcessingError repo err)] wd))"
proof (intro conjI impI)
  assume a: "make_request E \<lparr>rq_url = u, rq_since = None, rq_state = None, rq_page = Some pg\<rparr> w
       = Some (Inr (JArr rels), w1)
    \<and> (\<exists>fs. JObj fs \<in> set rels
          \<and> (map_of fs ''published_at'' = None \<or> map_of fs ''published_at'' = Some JNull
             \<or> (\<exists>s. map_of fs ''published_at'' = Some (JStr s) \<and> strptime E s = None)))"
  then obtain fs where fs: "JObj fs \<in> set rels"
    "map_of fs ''published_at'' = None \<or> map_of fs ''published_at'' = Some JNull
             \<or> (\<exists>s. map_of fs ''published_at'' = Some (JStr s) \<and> strptime E s = None)" by blast
  have "\<exists>x\<in>set rels. \<exists>e. release_recent E since x = Inl e" for since
    using fs(1) release_recent_fails[OF fs(2), of since] by blast
  from recent_releases_fails[OF this, of days w1] obtain e w' where
    e: "recent_releases E days (JArr rels) w1 = (Inl e, w')" by blast
  from fs(1) have ne: "rels \<noteq> []" by auto
  have "releases_loop E u days pg releases w = Some (Inl e, w')"
    using a by (subst releases_loop.simps) (simp add: e ne)
  then show "\<exists>e w'. releases_loop E u days pg releases w = Some (Inl e, w')" by blast
next
  assume "get_repository_info E repo (add_events [Log (Fetching repo days)] w0) = Some (Inr info, wa)
      \<and> get_commits E repo days wa = Some (Inr commits, wb)
      \<and> get_issues E repo days ''all'' wb = Some (Inr raw, wc)
      \<and> classify raw = Inr (pull_requests, issues)
      \<and> get_releases E repo days wc = Some (Inl err, wd)"
  then show "process_repo_data E repo days w0
          = Some (Inl err, add_events [Log (ProcessingError repo err)] wd)"
    by (simp add: process_repo_data_def process_body_def and_then_def pure_step_def)
qed

lemma draft_pages_served: "serves_pages (mock_env (page_server draft_pages)) params draft_pages 0"
  by (simp add: serves_pages_def mock_env_def page_server_def draft_pages_def ok_response_def)

lemma mock_since: "since_date (datetime_now (mock_env server) k) 7 = Inr 63799395200000000"
  by (simp add: since_date_def mock_env_def)

theorem bad_release_aborts_witness:
  "\<exists>info wa commits wb raw wc wr err wd.
      get_repository_info (mock_env (page_server draft_pages)) ''o/r''
          (add_events [Log (Fetching ''o/r'' 7)] fresh_world) = Some (Inr info, wa)
    \<and> get_commits (mock_env (page_server draft_pages)) ''o/r'' 7 wa = Some (Inr commits, wb)
    \<and> get_issues (mock_env (page_server draft_pages)) ''o/r'' 7 ''all'' wb = Some (Inr raw, wc)
    \<and> classify raw = Inr ([], [draft_release])
    \<and> make_request (mock_env (page_server draft_pages))
          \<lparr>rq_url = base_url @ ''/repos/o/r/releases'', rq_since = None, rq_state = None,
           rq_page = Some 1\<rparr> wc = Some (Inr (JArr [draft_release]), wr)
    \<and> map_of [(''tag_name'', JStr ''v2.0''), (''draft'', JBool True), (''published_at'', JNull)]
          ''published_at'' = Some JNull
    \<and> get_releases (mock_env (page_server draft_pages)) ''o/r'' 7 wc = Some (Inl err, wd)
    \<and> process_repo_data (mock_env (page_server draft_pages)) ''o/r'' 7 fresh_world
        = Some (Inl err, add_events [Log (ProcessingError ''o/r'' err)] wd)"
proof -
  let ?E = "mock_env (page_server draft_pages)"
  let ?w0 = "add_events [Log (Fetching ''o/r'' 7)] fresh_world"
  let ?rel = "\<lparr>rq_url = base_url @ ''/repos/o/r/releases'', rq_since = None, rq_state = None,
               rq_page = Some (1::nat)\<rparr>"
  have "respond ?E (sent ?w0) \<lparr>rq_url = base_url @ ''/repos/'' @ ''o/r'', rq_since = None,
            rq_state = None, rq_page = None\<rparr> = Inr (ok_response (JObj []))"
    by (simp add: mock_env_def page_server_def)
  from make_request_ok_full[OF this, of "JObj []"] obtain wa where
    wa: "get_repository_info ?E ''o/r'' ?w0 = Some (Inr (JObj []), wa)"
    by (auto simp: get_repository_info_def ok_response_def)
  have one: "concat (map draft_pages [1..<0 + 2]) = [draft_release]"
    by (simp add: upt_rec draft_pages_def)
  from page_loop_pages[OF draft_pages_served, of 1 _ "[]" "wa\<lparr>clock_reads := clock_reads wa + 1\<rparr>"]
  obtain wb where wb: "get_commits ?E ''o/r'' 7 wa = Some (Inr [draft_release], wb)"
    unfolding one by (auto simp: get_commits_def read_now_def mock_since)
  from page_loop_pages[OF draft_pages_served, of 1 _ "[]" "wb\<lparr>clock_reads := clock_reads wb + 1\<rparr>"]
  obtain wc where wc: "get_issues ?E ''o/r'' 7 ''all'' wb = Some (Inr [draft_release], wc)"
    unfolding one by (auto simp: get_issues_def read_now_def mock_since)
  have cl: "classify [draft_release] = Inr ([], [draft_release])"
    by (simp add: classify_def draft_release_def bind_err_def)
  have "respond ?E (sent wc) ?rel = Inr (ok_response (JArr [draft_release]))"
    by (simp add: mock_env_def page_server_def draft_pages_def)
  from make_request_ok_full[OF this, of "JArr [draft_release]"] obtain wr where
    wr: "make_request ?E ?rel wc = Some (Inr (JArr [draft_release]), wr)"
    by (auto simp: ok_response_def)
  have nul: "map_of [(''tag_name'', JStr ''v2.0''), (''draft'', JBool True), (''published_at'', JNull)]
          ''published_at'' = Some JNull" by simp
  have bad: "\<exists>fs. JObj fs \<in> set [draft_release]
          \<and> (map_of fs ''published_at'' = None \<or> map_of fs ''published_at'' = Some JNull
             \<or> (\<exists>s. map_of fs ''published_at'' = Some (JStr s) \<and> strptime ?E s = None))"
    by (simp add: draft_release_def)
  note thm1 = bad_release_aborts
    [where E = ?E and u = "base_url @ ''/repos/o/r/releases''" and pg = 1 and w = wc
       and rels = "[draft_release]" and ?w1.0 = wr and days = 7 and releases = "[]",
     THEN conjunct1, rule_format, OF conjI, OF wr bad]
  then obtain err wd where rel: "get_releases ?E ''o/r'' 7 wc = Some (Inl err, wd)"
    by (auto simp: get_releases_def)
  note thm2 = bad_release_aborts
    [where E = ?E and repo = "''o/r''" and days = 7 and ?w0.0 = fresh_world and info = "JObj []"
       and wa = wa and commits = "[draft_release]" and wb = wb and raw = "[draft_release]"
       and wc = wc and pull_requests = "[]" and issues = "[draft_release]" and err = err
       and wd = wd,
     THEN conjunct2, rule_format]
  from thm2 wa wb wc cl rel
  have "process_repo_data ?E ''o/r'' 7 fresh_world
        = Some (Inl err, add_events [Log (ProcessingError ''o/r'' err)] wd)" by blast
  with wa wb wc cl wr nul rel show ?thesis by blast
qed

section \<open>Properties of the batch\<close>

declare page_loop.simps [code]
declare releases_loop.simps [code]

lemma files_add_events [simp]: "files (add_events es w) = files w"
  by (simp add: add_events_def)

lemma files_backoff [simp]: "files (backoff E t w) = files w"
  by (simp add: backoff_def)




















end
